theory Spec2Isabelle
  imports Main
begin

section \<open>Errors of the host\<close>

text \<open>
  A rejected promise or a thrown exception of the host (the editor's key-value storage,
  the auth utility, the cloud SDK) is a value: the error object, here its message.
\<close>

datatype error = Error string

section \<open>The notification info store (src/mynah/stores/notificationsInfoStore.ts)\<close>

definition StorageKey :: string where
  "StorageKey = ''NOTIFICATION_INFO_''"

text \<open>
  The interface \<open>NotificationInfoRecord\<close>. The two counters are JavaScript numbers; the
  code only ever writes \<open>0\<close>, a clock reading in milliseconds and \<open>viewsCounter + 1\<close>,
  so they are modelled as integers.
\<close>

record NotificationInfoRecord =
  notificationName :: string
  viewsCounter :: int
  lastSeen :: int
  muted :: bool

text \<open>
  The host's \<open>Memento\<close> (imported from the editor API, not part of the repository): a
  key-value store with \<open>get\<close> and \<open>update\<close>. \<open>entries\<close> is what is stored; \<open>get\<close> of an
  absent key is \<open>undefined\<close>, that is \<open>None\<close>. \<open>pending\<close> is the outcome the host has in
  stock for each of its forthcoming calls, in order: \<open>Some e\<close> makes that call fail with
  \<open>e\<close>, \<open>None\<close> (or an exhausted list) lets it succeed. Every call of \<open>get\<close> or \<open>update\<close>
  consumes one outcome, so the length of \<open>pending\<close> counts the calls made.
\<close>

record Memento =
  entries :: "string \<rightharpoonup> NotificationInfoRecord"
  pending :: "error option list"

definition next_outcome :: "Memento \<Rightarrow> error option \<times> Memento" where
  "next_outcome m =
     (case pending m of
        [] \<Rightarrow> (None, m)
      | f # fs \<Rightarrow> (f, m\<lparr>pending := fs\<rparr>))"

definition memento_get :: "Memento \<Rightarrow> string \<Rightarrow> (error + NotificationInfoRecord option) \<times> Memento" where
  "memento_get m key =
     (case next_outcome m of
        (Some e, m') \<Rightarrow> (Inl e, m')
      | (None, m') \<Rightarrow> (Inr (entries m' key), m'))"

definition memento_update :: "Memento \<Rightarrow> string \<Rightarrow> NotificationInfoRecord \<Rightarrow> (error + unit) \<times> Memento" where
  "memento_update m key v =
     (case next_outcome m of
        (Some e, m') \<Rightarrow> (Inl e, m')
      | (None, m') \<Rightarrow> (Inr (), m'\<lparr>entries := (entries m')(key \<mapsto> v)\<rparr>))"

text \<open>
  The class \<open>NotificationInfoStore\<close> holds the two mementos given to its constructor. Each
  method takes the store and returns its outcome (\<open>Inl\<close> the error of a rejected promise)
  together with the store afterwards.
\<close>

record NotificationInfoStore =
  globalStore :: Memento
  workplaceStore :: Memento

definition addRecordToWorkplaceStore ::
  "NotificationInfoStore \<Rightarrow> NotificationInfoRecord \<Rightarrow> (error + unit) \<times> NotificationInfoStore" where
  "addRecordToWorkplaceStore s record =
     (case memento_update (workplaceStore s) (StorageKey @ notificationName record) record of
        (r, m') \<Rightarrow> (r, s\<lparr>workplaceStore := m'\<rparr>))"

definition addRecordToGlobalStore ::
  "NotificationInfoStore \<Rightarrow> NotificationInfoRecord \<Rightarrow> (error + unit) \<times> NotificationInfoStore" where
  "addRecordToGlobalStore s record =
     (case memento_update (globalStore s) (StorageKey @ notificationName record) record of
        (r, m') \<Rightarrow> (r, s\<lparr>globalStore := m'\<rparr>))"

definition getEmptyRecord :: "string \<Rightarrow> NotificationInfoRecord" where
  "getEmptyRecord name =
     \<lparr>notificationName = name, viewsCounter = 0, lastSeen = 0, muted = False\<rparr>"

definition getRecordFromGlobalStore ::
  "NotificationInfoStore \<Rightarrow> string \<Rightarrow> (error + NotificationInfoRecord option) \<times> NotificationInfoStore" where
  "getRecordFromGlobalStore s name =
     (case memento_get (globalStore s) (StorageKey @ name) of
        (r, m') \<Rightarrow> (r, s\<lparr>globalStore := m'\<rparr>))"

definition getRecordFromWorkplaceStore ::
  "NotificationInfoStore \<Rightarrow> string \<Rightarrow> (error + NotificationInfoRecord option) \<times> NotificationInfoStore" where
  "getRecordFromWorkplaceStore s name =
     (case memento_get (workplaceStore s) (StorageKey @ name) of
        (r, m') \<Rightarrow> (r, s\<lparr>workplaceStore := m'\<rparr>))"

definition setMuteStatusInWorkplaceStore ::
  "NotificationInfoStore \<Rightarrow> string \<Rightarrow> bool \<Rightarrow> (error + unit) \<times> NotificationInfoStore" where
  "setMuteStatusInWorkplaceStore s name isMuted =
     (case getRecordFromWorkplaceStore s name of
        (Inl e, s1) \<Rightarrow> (Inl e, s1)
      | (Inr got, s1) \<Rightarrow>
          (let record = (case got of None \<Rightarrow> getEmptyRecord name | Some r \<Rightarrow> r);
               record = record\<lparr>muted := isMuted\<rparr>
           in case memento_update (workplaceStore s1) (StorageKey @ name) record of
                (r, m') \<Rightarrow> (r, s1\<lparr>workplaceStore := m'\<rparr>)))"

definition setMuteStatusInGlobalStore ::
  "NotificationInfoStore \<Rightarrow> string \<Rightarrow> bool \<Rightarrow> (error + unit) \<times> NotificationInfoStore" where
  "setMuteStatusInGlobalStore s name isMuted =
     (case getRecordFromGlobalStore s name of
        (Inl e, s1) \<Rightarrow> (Inl e, s1)
      | (Inr got, s1) \<Rightarrow>
          (let record = (case got of None \<Rightarrow> getEmptyRecord name | Some r \<Rightarrow> r);
               record = record\<lparr>muted := isMuted\<rparr>
           in case memento_update (globalStore s1) (StorageKey @ name) record of
                (r, m') \<Rightarrow> (r, s1\<lparr>globalStore := m'\<rparr>)))"

text \<open>
  \<open>new Date().getTime()\<close> reads the wall clock. The reading is an input of the model:
  \<open>now\<close> is the number of milliseconds the clock returns when the method reads it.
\<close>

definition addNewViewToNotificationInWorkplaceStore ::
  "NotificationInfoStore \<Rightarrow> int \<Rightarrow> string \<Rightarrow> (error + unit) \<times> NotificationInfoStore" where
  "addNewViewToNotificationInWorkplaceStore s now name =
     (case getRecordFromWorkplaceStore s name of
        (Inl e, s1) \<Rightarrow> (Inl e, s1)
      | (Inr got, s1) \<Rightarrow>
          (let record = (case got of None \<Rightarrow> getEmptyRecord name | Some r \<Rightarrow> r);
               record = record\<lparr>viewsCounter := viewsCounter record + 1\<rparr>;
               record = record\<lparr>lastSeen := now\<rparr>
           in case memento_update (workplaceStore s1) (StorageKey @ name) record of
                (r, m') \<Rightarrow> (r, s1\<lparr>workplaceStore := m'\<rparr>)))"

definition addNewViewToNotificationInGlobalStore ::
  "NotificationInfoStore \<Rightarrow> int \<Rightarrow> string \<Rightarrow> (error + unit) \<times> NotificationInfoStore" where
  "addNewViewToNotificationInGlobalStore s now name =
     (case getRecordFromGlobalStore s name of
        (Inl e, s1) \<Rightarrow> (Inl e, s1)
      | (Inr got, s1) \<Rightarrow>
          (let record = (case got of None \<Rightarrow> getEmptyRecord name | Some r \<Rightarrow> r);
               record = record\<lparr>viewsCounter := viewsCounter record + 1\<rparr>;
               record = record\<lparr>lastSeen := now\<rparr>
           in case memento_update (globalStore s1) (StorageKey @ name) record of
                (r, m') \<Rightarrow> (r, s1\<lparr>globalStore := m'\<rparr>)))"

text \<open>A memento whose forthcoming calls all succeed.\<close>

definition responsive :: "Memento \<Rightarrow> bool" where
  "responsive m = list_all (\<lambda>f. f = None) (pending m)"

section \<open>The init message handler (src/applicationcomposer/messageHandlers/initMessageHandler.ts)\<close>

text \<open>
  The enums \<open>MessageType\<close> and \<open>Command\<close> are declared in \<open>../types\<close>, which is not among
  the sources; the handler uses one member of each, and the other members are kept apart
  by their name.
\<close>

datatype MessageType = RESPONSE | OtherMessageType string

datatype Command = INIT | OtherCommand string

text \<open>The object literal the handler builds: these five fields and no other.\<close>

record InitResponseMessage =
  messageType :: MessageType
  command :: Command
  templateFileName :: string
  templateFilePath :: string
  isConnectedToCodeWhisperer :: bool

text \<open>
  The part of \<open>WebviewContext\<close> the handler touches: \<open>context.defaultTemplatePath\<close> and
  \<open>context.panel.webview\<close>. The webview is the sequence of messages posted to it so
  far; \<open>postMessage\<close> appends one.
\<close>

record Webview =
  posted :: "InitResponseMessage list"

record WebviewPanel =
  webview :: Webview

record WebviewContext =
  defaultTemplatePath :: string
  panel :: WebviewPanel

definition postMessage :: "Webview \<Rightarrow> InitResponseMessage \<Rightarrow> Webview" where
  "postMessage w message = w\<lparr>posted := posted w @ [message]\<rparr>"

text \<open>
  The result of \<open>getChatAuthState\<close>: the handler reads its field \<open>codewhispererChat\<close>
  and compares it with string literals.
\<close>

record FeatureAuthState =
  codewhispererChat :: string

text \<open>
  \<open>path.basename\<close> (Node's library) and the awaited result of
  \<open>getChatAuthState(AuthUtil.instance)\<close> (\<open>Inl\<close> when the promise is rejected) are
  inputs. The handler returns the context afterwards, or the error it was rejected with.
\<close>

definition initMessageHandler ::
  "(string \<Rightarrow> string) \<Rightarrow> error + FeatureAuthState \<Rightarrow> WebviewContext \<Rightarrow> error + WebviewContext" where
  "initMessageHandler path_basename chatAuthState context =
     (let filePath = defaultTemplatePath context
      in case chatAuthState of
           Inl e \<Rightarrow> Inl e
         | Inr authState \<Rightarrow>
             (let responseMessage =
                    \<lparr>messageType = RESPONSE,
                     command = INIT,
                     templateFileName = path_basename filePath,
                     templateFilePath = filePath,
                     isConnectedToCodeWhisperer =
                       (codewhispererChat authState = ''connected'' \<or>
                        codewhispererChat authState = ''expired'')\<rparr>
              in Inr (context\<lparr>panel := (panel context)
                        \<lparr>webview := postMessage (webview (panel context)) responseMessage\<rparr>\<rparr>)))"

section \<open>The IoT policy node (exercised by src/test/iot/explorer/iotPolicyNode.test.ts)\<close>

record IotPolicy =
  name :: string
  arn :: string

record PolicyVersion =
  versionId :: string
  isDefaultVersion :: bool

record ListPolicyVersionsRequest =
  policyName :: string

text \<open>
  The IoT client, as the test mocks it: \<open>listPolicyVersions\<close> answers a request with the
  versions its asynchronous sequence yields, or with the error of the SDK.
\<close>

record IotClient =
  listPolicyVersions :: "ListPolicyVersionsRequest \<Rightarrow> error + PolicyVersion list"

record IotPolicyVersionNode =
  policy :: IotPolicy
  version :: PolicyVersion

record IotPolicyWithVersionsNode =
  parent_policy :: IotPolicy
  iot :: IotClient

text \<open>
  Modelled from the spec: \<open>IotPolicyWithVersionsNode.getChildren\<close> and the class
  \<open>IotPolicyVersionNode\<close> (src/iot/explorer/iotPolicyNode.ts and iotPolicyVersionNode.ts)
  are not among the sources; only their test is. The spec's words: the node provider
  fetches a list from the remote API and wraps each item in a node object, with no
  caching, retry or pagination of its own, and an SDK error propagates.
\<close>

definition getChildren :: "IotPolicyWithVersionsNode \<Rightarrow> error + IotPolicyVersionNode list" where
  "getChildren node =
     (case listPolicyVersions (iot node) \<lparr>policyName = name (parent_policy node)\<rparr> of
        Inl e \<Rightarrow> Inl e
      | Inr versions \<Rightarrow>
          Inr (map (\<lambda>v. \<lparr>policy = parent_policy node, version = v\<rparr>) versions))"

section \<open>Predicates on stores\<close>

text \<open>
  Two predicates on stores, used to state which keys an operation touches. \<open>kept_at key s s'\<close>:
  both mementos of \<open>s'\<close> hold under \<open>key\<close> what those of \<open>s\<close> hold. \<open>agree_at key s s'\<close>: the
  two stores hold the same under \<open>key\<close> and their hosts have the same outcomes in stock;
  they may differ under every other key.
\<close>

definition kept_at :: "string \<Rightarrow> NotificationInfoStore \<Rightarrow> NotificationInfoStore \<Rightarrow> bool" where
  "kept_at key s s' =
     (entries (globalStore s') key = entries (globalStore s) key \<and>
      entries (workplaceStore s') key = entries (workplaceStore s) key)"

definition agree_at :: "string \<Rightarrow> NotificationInfoStore \<Rightarrow> NotificationInfoStore \<Rightarrow> bool" where
  "agree_at key s s' =
     (pending (globalStore s) = pending (globalStore s') \<and>
      pending (workplaceStore s) = pending (workplaceStore s') \<and>
      entries (globalStore s) key = entries (globalStore s') key \<and>
      entries (workplaceStore s) key = entries (workplaceStore s') key)"

section \<open>Concrete inputs\<close>

text \<open>Stores, a webview context and the data of the IoT test, for evaluating the model.\<close>

definition fresh_memento :: Memento where
  "fresh_memento = \<lparr>entries = Map.empty, pending = []\<rparr>"

definition fresh_store :: NotificationInfoStore where
  "fresh_store = \<lparr>globalStore = fresh_memento, workplaceStore = fresh_memento\<rparr>"

definition tip_record :: "bool \<Rightarrow> NotificationInfoRecord" where
  "tip_record m = \<lparr>notificationName = ''tip'', viewsCounter = 3, lastSeen = 1700000000000, muted = m\<rparr>"

definition tip_memento :: "bool \<Rightarrow> error option list \<Rightarrow> Memento" where
  "tip_memento m fs = \<lparr>entries = [StorageKey @ ''tip'' \<mapsto> tip_record m], pending = fs\<rparr>"

definition tip_store :: "bool \<Rightarrow> error option list \<Rightarrow> NotificationInfoStore" where
  "tip_store m fs = \<lparr>globalStore = tip_memento m fs, workplaceStore = tip_memento m fs\<rparr>"

definition hint_record :: NotificationInfoRecord where
  "hint_record = \<lparr>notificationName = ''hint'', viewsCounter = 1, lastSeen = 5, muted = False\<rparr>"

definition two_key_memento :: "error option list \<Rightarrow> Memento" where
  "two_key_memento fs =
     \<lparr>entries = [StorageKey @ ''tip'' \<mapsto> tip_record False, StorageKey @ ''hint'' \<mapsto> hint_record],
      pending = fs\<rparr>"

definition two_key_store :: "error option list \<Rightarrow> NotificationInfoStore" where
  "two_key_store fs = \<lparr>globalStore = two_key_memento fs, workplaceStore = two_key_memento fs\<rparr>"

text \<open>
  A concrete \<open>path.basename\<close> for evaluation, the one of Node on POSIX without the suffix
  argument: trailing slashes are dropped, then the part after the last slash is returned.
\<close>

definition posix_basename :: "string \<Rightarrow> string" where
  "posix_basename p =
     rev (takeWhile (\<lambda>c. c \<noteq> CHR ''/'') (dropWhile (\<lambda>c. c = CHR ''/'') (rev p)))"

definition composer_context :: WebviewContext where
  "composer_context =
     \<lparr>defaultTemplatePath = ''/home/dev/app/template.yaml'',
      panel = \<lparr>webview = \<lparr>posted = []\<rparr>\<rparr>\<rparr>"

definition init_response :: "bool \<Rightarrow> InitResponseMessage" where
  "init_response connected =
     \<lparr>messageType = RESPONSE, command = INIT, templateFileName = ''template.yaml'',
      templateFilePath = ''/home/dev/app/template.yaml'', isConnectedToCodeWhisperer = connected\<rparr>"

definition composer_context_after :: "bool \<Rightarrow> WebviewContext" where
  "composer_context_after connected =
     \<lparr>defaultTemplatePath = ''/home/dev/app/template.yaml'',
      panel = \<lparr>webview = \<lparr>posted = [init_response connected]\<rparr>\<rparr>\<rparr>"

definition test_policy :: IotPolicy where
  "test_policy = \<lparr>name = ''policy'', arn = ''arn''\<rparr>"

definition test_version :: PolicyVersion where
  "test_version = \<lparr>versionId = ''V1'', isDefaultVersion = True\<rparr>"

definition test_iot :: IotClient where
  "test_iot =
     \<lparr>listPolicyVersions = (\<lambda>request.
        if policyName request = ''policy'' then Inr [test_version]
        else Inl (Error ''ResourceNotFoundException''))\<rparr>"

definition test_node :: IotPolicyWithVersionsNode where
  "test_node = \<lparr>parent_policy = test_policy, iot = test_iot\<rparr>"

section \<open>Auxiliary facts\<close>

lemma fst_next_outcome: "fst (next_outcome m) = (case pending m of [] \<Rightarrow> None | f # fs \<Rightarrow> f)"
  by (simp add: next_outcome_def split: list.splits)

lemma snd_next_outcome: "snd (next_outcome m) = m\<lparr>pending := tl (pending m)\<rparr>"
  by (simp add: next_outcome_def split: list.splits)

lemma memento_get_eq:
  "memento_get m k =
     (case fst (next_outcome m) of Some e \<Rightarrow> Inl e | None \<Rightarrow> Inr (entries m k),
      m\<lparr>pending := tl (pending m)\<rparr>)"
  using snd_next_outcome [of m]
  by (cases "next_outcome m") (auto simp: memento_get_def split: option.splits)

lemma memento_update_eq:
  "memento_update m k v =
     (case fst (next_outcome m) of
        Some e \<Rightarrow> (Inl e, m\<lparr>pending := tl (pending m)\<rparr>)
      | None \<Rightarrow> (Inr (), m\<lparr>pending := tl (pending m), entries := (entries m)(k \<mapsto> v)\<rparr>))"
  using snd_next_outcome [of m]
  by (cases "next_outcome m") (auto simp: memento_update_def split: option.splits)

lemma all_None_tl: "list_all (\<lambda>f. f = None) fs \<Longrightarrow> list_all (\<lambda>f. f = None) (tl fs)"
  by (cases fs) auto

lemma all_None_fst: "list_all (\<lambda>f. f = None) (pending m) \<Longrightarrow> fst (next_outcome m) = None"
  by (cases "pending m") (auto simp: fst_next_outcome)

lemmas store_defs =
  addRecordToWorkplaceStore_def addRecordToGlobalStore_def
  getRecordFromGlobalStore_def getRecordFromWorkplaceStore_def
  setMuteStatusInWorkplaceStore_def setMuteStatusInGlobalStore_def
  addNewViewToNotificationInWorkplaceStore_def addNewViewToNotificationInGlobalStore_def

lemmas responsive_simps =
  memento_get_eq memento_update_eq responsive_def all_None_fst all_None_tl Let_def

lemma setMute_w:
  assumes "responsive (workplaceStore s)"
  shows "fst (setMuteStatusInWorkplaceStore s n b) = Inr ()"
    and "entries (workplaceStore (snd (setMuteStatusInWorkplaceStore s n b))) =
      (entries (workplaceStore s))(StorageKey @ n \<mapsto>
       (case entries (workplaceStore s) (StorageKey @ n) of None \<Rightarrow> getEmptyRecord n | Some r \<Rightarrow> r)\<lparr>muted := b\<rparr>)"
    and "responsive (workplaceStore (snd (setMuteStatusInWorkplaceStore s n b)))"
  using assms by (simp_all add: store_defs responsive_simps)

lemma setMute_g:
  assumes "responsive (globalStore s)"
  shows "fst (setMuteStatusInGlobalStore s n b) = Inr ()"
    and "entries (globalStore (snd (setMuteStatusInGlobalStore s n b))) =
      (entries (globalStore s))(StorageKey @ n \<mapsto>
       (case entries (globalStore s) (StorageKey @ n) of None \<Rightarrow> getEmptyRecord n | Some r \<Rightarrow> r)\<lparr>muted := b\<rparr>)"
    and "responsive (globalStore (snd (setMuteStatusInGlobalStore s n b)))"
  using assms by (simp_all add: store_defs responsive_simps)

lemma addNewView_w:
  assumes "responsive (workplaceStore s)"
  shows "fst (addNewViewToNotificationInWorkplaceStore s t n) = Inr ()"
    and "entries (workplaceStore (snd (addNewViewToNotificationInWorkplaceStore s t n))) =
      (entries (workplaceStore s))(StorageKey @ n \<mapsto>
       (case entries (workplaceStore s) (StorageKey @ n) of None \<Rightarrow> getEmptyRecord n | Some r \<Rightarrow> r)
         \<lparr>viewsCounter := viewsCounter (case entries (workplaceStore s) (StorageKey @ n) of None \<Rightarrow> getEmptyRecord n | Some r \<Rightarrow> r) + 1,
          lastSeen := t\<rparr>)"
    and "responsive (workplaceStore (snd (addNewViewToNotificationInWorkplaceStore s t n)))"
  using assms by (simp_all add: store_defs responsive_simps)

lemma addNewView_g:
  assumes "responsive (globalStore s)"
  shows "fst (addNewViewToNotificationInGlobalStore s t n) = Inr ()"
    and "entries (globalStore (snd (addNewViewToNotificationInGlobalStore s t n))) =
      (entries (globalStore s))(StorageKey @ n \<mapsto>
       (case entries (globalStore s) (StorageKey @ n) of None \<Rightarrow> getEmptyRecord n | Some r \<Rightarrow> r)
         \<lparr>viewsCounter := viewsCounter (case entries (globalStore s) (StorageKey @ n) of None \<Rightarrow> getEmptyRecord n | Some r \<Rightarrow> r) + 1,
          lastSeen := t\<rparr>)"
    and "responsive (globalStore (snd (addNewViewToNotificationInGlobalStore s t n)))"
  using assms by (simp_all add: store_defs responsive_simps)

lemma addRecord_w:
  assumes "responsive (workplaceStore s)"
  shows "fst (addRecordToWorkplaceStore s r) = Inr ()"
    and "entries (workplaceStore (snd (addRecordToWorkplaceStore s r))) =
      (entries (workplaceStore s))(StorageKey @ notificationName r \<mapsto> r)"
    and "responsive (workplaceStore (snd (addRecordToWorkplaceStore s r)))"
  using assms by (simp_all add: store_defs responsive_simps)

lemma addRecord_g:
  assumes "responsive (globalStore s)"
  shows "fst (addRecordToGlobalStore s r) = Inr ()"
    and "entries (globalStore (snd (addRecordToGlobalStore s r))) =
      (entries (globalStore s))(StorageKey @ notificationName r \<mapsto> r)"
    and "responsive (globalStore (snd (addRecordToGlobalStore s r)))"
  using assms by (simp_all add: store_defs responsive_simps)

lemma getRecord_w:
  assumes "responsive (workplaceStore s)"
  shows "fst (getRecordFromWorkplaceStore s n) = Inr (entries (workplaceStore s) (StorageKey @ n))"
    and "entries (workplaceStore (snd (getRecordFromWorkplaceStore s n))) = entries (workplaceStore s)"
    and "responsive (workplaceStore (snd (getRecordFromWorkplaceStore s n)))"
  using assms by (simp_all add: store_defs responsive_simps)

lemma getRecord_g:
  assumes "responsive (globalStore s)"
  shows "fst (getRecordFromGlobalStore s n) = Inr (entries (globalStore s) (StorageKey @ n))"
    and "entries (globalStore (snd (getRecordFromGlobalStore s n))) = entries (globalStore s)"
    and "responsive (globalStore (snd (getRecordFromGlobalStore s n)))"
  using assms by (simp_all add: store_defs responsive_simps)

lemma responsive_fresh: "responsive (globalStore fresh_store)" "responsive (workplaceStore fresh_store)"
  by (simp_all add: fresh_store_def fresh_memento_def responsive_def)

lemmas eval_defs = store_defs memento_get_def memento_update_def next_outcome_def
  getEmptyRecord_def StorageKey_def Let_def responsive_def
  fresh_store_def fresh_memento_def tip_record_def tip_memento_def tip_store_def

lemmas frame_simps = kept_at_def store_defs memento_get_eq memento_update_eq Let_def

lemma addRecord_kept:
  "k \<noteq> StorageKey @ notificationName r \<Longrightarrow> kept_at k s (snd (addRecordToGlobalStore s r))"
  "k \<noteq> StorageKey @ notificationName r \<Longrightarrow> kept_at k s (snd (addRecordToWorkplaceStore s r))"
  by (auto simp: frame_simps split: option.splits)

lemma getRecord_kept:
  "kept_at k s (snd (getRecordFromGlobalStore s n))"
  "kept_at k s (snd (getRecordFromWorkplaceStore s n))"
  by (auto simp: frame_simps split: option.splits)

lemma setMute_kept:
  "k \<noteq> StorageKey @ n \<Longrightarrow> kept_at k s (snd (setMuteStatusInGlobalStore s n b))"
  "k \<noteq> StorageKey @ n \<Longrightarrow> kept_at k s (snd (setMuteStatusInWorkplaceStore s n b))"
  by (auto simp: frame_simps split: option.splits)

lemma addNewView_kept:
  "k \<noteq> StorageKey @ n \<Longrightarrow> kept_at k s (snd (addNewViewToNotificationInGlobalStore s t n))"
  "k \<noteq> StorageKey @ n \<Longrightarrow> kept_at k s (snd (addNewViewToNotificationInWorkplaceStore s t n))"
  by (auto simp: frame_simps split: option.splits)

lemmas agree_simps = agree_at_def store_defs memento_get_eq memento_update_eq fst_next_outcome Let_def

lemma addRecord_agree:
  assumes "agree_at (StorageKey @ notificationName r) s s'"
  shows "fst (addRecordToGlobalStore s r) = fst (addRecordToGlobalStore s' r) \<and>
         agree_at (StorageKey @ notificationName r) (snd (addRecordToGlobalStore s r)) (snd (addRecordToGlobalStore s' r))"
    and "fst (addRecordToWorkplaceStore s r) = fst (addRecordToWorkplaceStore s' r) \<and>
         agree_at (StorageKey @ notificationName r) (snd (addRecordToWorkplaceStore s r)) (snd (addRecordToWorkplaceStore s' r))"
  using assms by (auto simp: agree_simps split: option.splits list.splits)

lemma getRecord_agree:
  assumes "agree_at (StorageKey @ n) s s'"
  shows "fst (getRecordFromGlobalStore s n) = fst (getRecordFromGlobalStore s' n) \<and>
         agree_at (StorageKey @ n) (snd (getRecordFromGlobalStore s n)) (snd (getRecordFromGlobalStore s' n))"
    and "fst (getRecordFromWorkplaceStore s n) = fst (getRecordFromWorkplaceStore s' n) \<and>
         agree_at (StorageKey @ n) (snd (getRecordFromWorkplaceStore s n)) (snd (getRecordFromWorkplaceStore s' n))"
  using assms by (auto simp: agree_simps split: option.splits list.splits)

lemma setMute_agree:
  assumes "agree_at (StorageKey @ n) s s'"
  shows "fst (setMuteStatusInGlobalStore s n b) = fst (setMuteStatusInGlobalStore s' n b) \<and>
         agree_at (StorageKey @ n) (snd (setMuteStatusInGlobalStore s n b)) (snd (setMuteStatusInGlobalStore s' n b))"
    and "fst (setMuteStatusInWorkplaceStore s n b) = fst (setMuteStatusInWorkplaceStore s' n b) \<and>
         agree_at (StorageKey @ n) (snd (setMuteStatusInWorkplaceStore s n b)) (snd (setMuteStatusInWorkplaceStore s' n b))"
  using assms by (auto simp: agree_simps split: option.splits list.splits)

lemma addNewView_agree:
  assumes "agree_at (StorageKey @ n) s s'"
  shows "fst (addNewViewToNotificationInGlobalStore s t n) = fst (addNewViewToNotificationInGlobalStore s' t n) \<and>
         agree_at (StorageKey @ n) (snd (addNewViewToNotificationInGlobalStore s t n)) (snd (addNewViewToNotificationInGlobalStore s' t n))"
    and "fst (addNewViewToNotificationInWorkplaceStore s t n) = fst (addNewViewToNotificationInWorkplaceStore s' t n) \<and>
         agree_at (StorageKey @ n) (snd (addNewViewToNotificationInWorkplaceStore s t n)) (snd (addNewViewToNotificationInWorkplaceStore s' t n))"
  using assms by (auto simp: agree_simps split: option.splits list.splits)

lemma roundtrip_g:
  assumes "responsive (globalStore s)"
  shows "fst (getRecordFromGlobalStore (snd (addRecordToGlobalStore s r)) (notificationName r)) = Inr (Some r)"
  by (simp add: getRecord_g(1) [OF addRecord_g(3) [OF assms]] addRecord_g(2) [OF assms])

lemma roundtrip_w:
  assumes "responsive (workplaceStore s)"
  shows "fst (getRecordFromWorkplaceStore (snd (addRecordToWorkplaceStore s r)) (notificationName r)) = Inr (Some r)"
  by (simp add: getRecord_w(1) [OF addRecord_w(3) [OF assms]] addRecord_w(2) [OF assms])

lemmas eval_defs2 = eval_defs hint_record_def two_key_memento_def two_key_store_def kept_at_def agree_at_def

lemmas handler_eval = initMessageHandler_def postMessage_def Let_def posix_basename_def
  composer_context_def composer_context_after_def init_response_def

lemma initMessageHandler_Inr:
  assumes "initMessageHandler pb chatAuthState context = Inr context'"
  shows "\<exists>authState. chatAuthState = Inr authState \<and>
     posted (webview (panel context')) = posted (webview (panel context)) @
       [\<lparr>messageType = RESPONSE, command = INIT,
         templateFileName = pb (defaultTemplatePath context),
         templateFilePath = defaultTemplatePath context,
         isConnectedToCodeWhisperer =
           (codewhispererChat authState = ''connected'' \<or> codewhispererChat authState = ''expired'')\<rparr>] \<and>
     defaultTemplatePath context' = defaultTemplatePath context"
  using assms
  by (cases chatAuthState) (auto simp: initMessageHandler_def postMessage_def Let_def)

section \<open>The claims\<close>

subsection \<open>Tree node children\<close>

text \<open>
  Claim C1. For every policy and every list of versions that \<open>listPolicyVersions\<close> returns
  for the policy's name, \<open>getChildren\<close> returns one version node per returned version, in
  the order returned; the node at position \<open>i\<close> carries the policy of the parent node in
  its field \<open>policy\<close> and the \<open>i\<close>-th version in its field \<open>version\<close>, both unchanged.
\<close>

theorem C1_one_node_per_version:
  assumes "listPolicyVersions (iot node) \<lparr>policyName = name (parent_policy node)\<rparr> = Inr versions"
  shows "\<exists>children. getChildren node = Inr children \<and>
           length children = length versions \<and>
           (\<forall>i < length versions.
              policy (children ! i) = parent_policy node \<and> version (children ! i) = versions ! i)"
  using assms by (simp add: getChildren_def)

text \<open>
  The data of the test: the policy \<open>policy\<close> with the single version \<open>V1\<close> gives one node
  carrying both.
\<close>

theorem C1_witness:
  "listPolicyVersions (iot test_node) \<lparr>policyName = name (parent_policy test_node)\<rparr> = Inr [test_version] \<and>
   getChildren test_node = Inr [\<lparr>policy = test_policy, version = test_version\<rparr>]"
proof -
  have h: "listPolicyVersions (iot test_node) \<lparr>policyName = name (parent_policy test_node)\<rparr> = Inr [test_version]"
    by (simp add: test_node_def test_iot_def test_policy_def)
  from C1_one_node_per_version [OF h] obtain children where
    c: "getChildren test_node = Inr children" "length children = length [test_version]"
      "\<forall>i < length [test_version]. policy (children ! i) = parent_policy test_node \<and>
          version (children ! i) = [test_version] ! i"
    by blast
  from c(2) obtain x where x: "children = [x]"
    by (cases children) auto
  from c(3) x have "policy x = test_policy" "version x = test_version"
    by (simp_all add: test_node_def)
  then have "x = \<lparr>policy = test_policy, version = test_version\<rparr>" by simp
  with c(1) x h show ?thesis by simp
qed

subsection \<open>A first and a second view\<close>

text \<open>
  Claim C2. When no record is stored for a name in the global store and the host's storage
  answers, \<open>addNewViewToNotificationInGlobalStore\<close> stores a record with
  \<open>viewsCounter = 1\<close> whose \<open>lastSeen\<close> is the clock reading taken by the call, which is not
  before the time of the call when the clock has not run backwards since; a second call
  leaves a stored record with \<open>viewsCounter = 2\<close>.
\<close>

theorem C2_first_view_then_second:
  assumes "responsive (globalStore s)"
    and "entries (globalStore s) (StorageKey @ n) = None"
    and "callTime \<le> now1"
  shows "fst (addNewViewToNotificationInGlobalStore s now1 n) = Inr () \<and>
         (\<exists>r1. entries (globalStore (snd (addNewViewToNotificationInGlobalStore s now1 n))) (StorageKey @ n) = Some r1 \<and>
               viewsCounter r1 = 1 \<and> lastSeen r1 = now1 \<and> callTime \<le> lastSeen r1) \<and>
         fst (addNewViewToNotificationInGlobalStore
                (snd (addNewViewToNotificationInGlobalStore s now1 n)) now2 n) = Inr () \<and>
         (\<exists>r2. entries (globalStore (snd (addNewViewToNotificationInGlobalStore
                  (snd (addNewViewToNotificationInGlobalStore s now1 n)) now2 n))) (StorageKey @ n) = Some r2 \<and>
               viewsCounter r2 = 2)"
proof -
  let ?s1 = "snd (addNewViewToNotificationInGlobalStore s now1 n)"
  have ok1: "fst (addNewViewToNotificationInGlobalStore s now1 n) = Inr ()"
    and resp1: "responsive (globalStore ?s1)"
    using assms(1) by (rule addNewView_g)+
  have e1: "entries (globalStore ?s1) (StorageKey @ n) =
      Some ((getEmptyRecord n)\<lparr>viewsCounter := viewsCounter (getEmptyRecord n) + 1, lastSeen := now1\<rparr>)"
    using assms(2) by (simp add: addNewView_g(2) [OF assms(1)])
  have ok2: "fst (addNewViewToNotificationInGlobalStore ?s1 now2 n) = Inr ()"
    using resp1 by (rule addNewView_g)
  have e2: "\<exists>r2. entries (globalStore (snd (addNewViewToNotificationInGlobalStore ?s1 now2 n))) (StorageKey @ n) = Some r2 \<and>
               viewsCounter r2 = 2"
    by (simp add: addNewView_g(2) [OF resp1] e1 getEmptyRecord_def)
  from ok1 e1 ok2 e2 assms(3) show ?thesis
    by (simp add: getEmptyRecord_def)
qed

theorem C2_witness:
  "responsive (globalStore fresh_store) \<and>
   entries (globalStore fresh_store) (StorageKey @ ''tip'') = None \<and>
   (1000::int) \<le> 1005 \<and>
   fst (addNewViewToNotificationInGlobalStore fresh_store 1005 ''tip'') = Inr () \<and>
   fst (addNewViewToNotificationInGlobalStore
          (snd (addNewViewToNotificationInGlobalStore fresh_store 1005 ''tip'')) 1010 ''tip'') = Inr ()"
proof -
  have h1: "responsive (globalStore fresh_store)" by (rule responsive_fresh)
  have h2: "entries (globalStore fresh_store) (StorageKey @ ''tip'') = None"
    by (simp add: fresh_store_def fresh_memento_def)
  have h3: "(1000::int) \<le> 1005" by simp
  show ?thesis using h1 h2 C2_first_view_then_second [OF h1 h2 h3, of 1010] by simp
qed

subsection \<open>Muting, then reading back\<close>

text \<open>
  Claim C3. For every name and every workplace store whose host answers,
  \<open>setMuteStatusInWorkplaceStore\<close> with \<open>true\<close> followed by \<open>getRecordFromWorkplaceStore\<close>
  returns a record with \<open>muted\<close> true; when a record was stored under the name before, the
  fields \<open>notificationName\<close>, \<open>viewsCounter\<close> and \<open>lastSeen\<close> of the returned record are
  those of that record.
\<close>

theorem C3_mute_then_get:
  assumes "responsive (workplaceStore s)"
  shows "fst (setMuteStatusInWorkplaceStore s n True) = Inr () \<and>
         (\<exists>r. fst (getRecordFromWorkplaceStore (snd (setMuteStatusInWorkplaceStore s n True)) n) = Inr (Some r) \<and>
              muted r \<and>
              (\<forall>r0. entries (workplaceStore s) (StorageKey @ n) = Some r0 \<longrightarrow>
                    notificationName r = notificationName r0 \<and>
                    viewsCounter r = viewsCounter r0 \<and>
                    lastSeen r = lastSeen r0))"
proof -
  let ?s1 = "snd (setMuteStatusInWorkplaceStore s n True)"
  have resp1: "responsive (workplaceStore ?s1)"
    using assms by (rule setMute_w)
  have "fst (getRecordFromWorkplaceStore ?s1 n) = Inr (entries (workplaceStore ?s1) (StorageKey @ n))"
    using resp1 by (rule getRecord_w)
  then show ?thesis
    by (auto simp: setMute_w(1,2) [OF assms])
qed

theorem C3_witness:
  "responsive (workplaceStore (tip_store False [None, None, None])) \<and>
   entries (workplaceStore (tip_store False [None, None, None])) (StorageKey @ ''tip'') = Some (tip_record False) \<and>
   fst (getRecordFromWorkplaceStore
          (snd (setMuteStatusInWorkplaceStore (tip_store False [None, None, None]) ''tip'' True)) ''tip'')
     = Inr (Some (tip_record True))"
proof -
  have h: "responsive (workplaceStore (tip_store False [None, None, None]))"
    by (simp add: eval_defs)
  show ?thesis using h C3_mute_then_get [OF h, of "''tip''"]
    by (simp add: eval_defs)
qed

subsection \<open>The template file name\<close>

text \<open>
  Claim C4. For every webview context, an invocation of \<open>initMessageHandler\<close> that
  completes posts a response message whose \<open>templateFileName\<close> is the base name of its
  \<open>templateFilePath\<close>, and whose \<open>templateFilePath\<close> is the \<open>defaultTemplatePath\<close> of the
  context.
\<close>

theorem C4_file_name_is_basename_of_path:
  assumes "initMessageHandler pb chatAuthState context = Inr context'"
  shows "\<exists>response.
           posted (webview (panel context')) = posted (webview (panel context)) @ [response] \<and>
           templateFileName response = pb (templateFilePath response) \<and>
           templateFilePath response = defaultTemplatePath context"
  using initMessageHandler_Inr [OF assms] by auto

theorem C4_witness:
  "initMessageHandler posix_basename (Inr \<lparr>codewhispererChat = ''connected''\<rparr>) composer_context =
     Inr (composer_context_after True) \<and>
   posted (webview (panel (composer_context_after True))) =
     posted (webview (panel composer_context)) @ [init_response True] \<and>
   templateFileName (init_response True) = posix_basename (templateFilePath (init_response True)) \<and>
   templateFilePath (init_response True) = defaultTemplatePath composer_context"
proof -
  have h: "initMessageHandler posix_basename (Inr \<lparr>codewhispererChat = ''connected''\<rparr>) composer_context =
     Inr (composer_context_after True)"
    by (simp add: handler_eval)
  from C4_file_name_is_basename_of_path [OF h] obtain response where
    p: "posted (webview (panel (composer_context_after True))) =
          posted (webview (panel composer_context)) @ [response]"
    and f: "templateFileName response = posix_basename (templateFilePath response)"
      "templateFilePath response = defaultTemplatePath composer_context"
    by blast
  from p have "response = init_response True"
    by (simp add: composer_context_def composer_context_after_def)
  with h p f show ?thesis by simp
qed

subsection \<open>The mute flag is assigned, not inverted\<close>

text \<open>
  Claim C5, as stated: each call of \<open>setMuteStatusInWorkplaceStore\<close> or
  \<open>setMuteStatusInGlobalStore\<close> inverts the stored \<open>muted\<close> value. It fails: on a record that
  is already muted, a call with \<open>true\<close> leaves \<open>muted\<close> true in either store.
\<close>

theorem C5_counterexample:
  "map_option muted (entries (workplaceStore (tip_store True [])) (StorageKey @ ''tip'')) = Some True \<and>
   fst (setMuteStatusInWorkplaceStore (tip_store True []) ''tip'' True) = Inr () \<and>
   map_option muted (entries (workplaceStore (snd (setMuteStatusInWorkplaceStore (tip_store True []) ''tip'' True)))
      (StorageKey @ ''tip'')) = Some True \<and>
   map_option muted (entries (workplaceStore (snd (setMuteStatusInWorkplaceStore (tip_store True []) ''tip'' True)))
      (StorageKey @ ''tip'')) \<noteq>
   map_option (Not \<circ> muted) (entries (workplaceStore (tip_store True [])) (StorageKey @ ''tip'')) \<and>
   map_option muted (entries (globalStore (tip_store True [])) (StorageKey @ ''tip'')) = Some True \<and>
   fst (setMuteStatusInGlobalStore (tip_store True []) ''tip'' True) = Inr () \<and>
   map_option muted (entries (globalStore (snd (setMuteStatusInGlobalStore (tip_store True []) ''tip'' True)))
      (StorageKey @ ''tip'')) = Some True \<and>
   map_option muted (entries (globalStore (snd (setMuteStatusInGlobalStore (tip_store True []) ''tip'' True)))
      (StorageKey @ ''tip'')) \<noteq>
   map_option (Not \<circ> muted) (entries (globalStore (tip_store True [])) (StorageKey @ ''tip''))"
  by (simp add: eval_defs)

text \<open>
  Claim C5, amended. For every name, every prior record state and every boolean
  \<open>isMuted\<close>, a call of \<open>setMuteStatusInWorkplaceStore\<close> or \<open>setMuteStatusInGlobalStore\<close>
  whose host answers stores a record whose \<open>muted\<close> field is \<open>isMuted\<close>, whatever was stored
  before.
\<close>

theorem C5_mute_status_is_assigned:
  "(responsive (workplaceStore s) \<longrightarrow>
      fst (setMuteStatusInWorkplaceStore s n isMuted) = Inr () \<and>
      map_option muted (entries (workplaceStore (snd (setMuteStatusInWorkplaceStore s n isMuted))) (StorageKey @ n))
        = Some isMuted) \<and>
   (responsive (globalStore s) \<longrightarrow>
      fst (setMuteStatusInGlobalStore s n isMuted) = Inr () \<and>
      map_option muted (entries (globalStore (snd (setMuteStatusInGlobalStore s n isMuted))) (StorageKey @ n))
        = Some isMuted)"
  by (simp add: setMute_w(1,2) setMute_g(1,2))

theorem C5_witness:
  "responsive (workplaceStore (tip_store True [None])) \<and>
   responsive (globalStore (tip_store True [None])) \<and>
   map_option muted (entries (workplaceStore (snd (setMuteStatusInWorkplaceStore (tip_store True [None]) ''tip'' False)))
      (StorageKey @ ''tip'')) = Some False \<and>
   map_option muted (entries (globalStore (snd (setMuteStatusInGlobalStore (tip_store True [None]) ''tip'' False)))
      (StorageKey @ ''tip'')) = Some False"
  using C5_mute_status_is_assigned [of "tip_store True [None]" "''tip''" False]
  by (simp add: eval_defs)

subsection \<open>Records are kept verbatim under the prefixed key\<close>

text \<open>
  Claim C6. For every record, \<open>addRecordToGlobalStore\<close> followed by
  \<open>getRecordFromGlobalStore\<close> with the record's \<open>notificationName\<close> returns that record, and
  likewise for the workplace store (the host answering). Every store operation writes only
  the key \<open>StorageKey @ notificationName\<close>: what either memento holds under any other key
  is kept (and \<open>getRecord*\<close> keeps every key). Every store operation reads only that key:
  on two stores that agree under it, the operation has the same outcome and leaves stores
  that agree under it.
\<close>

theorem C6_records_kept_verbatim_under_prefixed_key:
  "(responsive (globalStore s) \<longrightarrow>
      fst (addRecordToGlobalStore s r) = Inr () \<and>
      fst (getRecordFromGlobalStore (snd (addRecordToGlobalStore s r)) (notificationName r)) = Inr (Some r)) \<and>
   (responsive (workplaceStore s) \<longrightarrow>
      fst (addRecordToWorkplaceStore s r) = Inr () \<and>
      fst (getRecordFromWorkplaceStore (snd (addRecordToWorkplaceStore s r)) (notificationName r)) = Inr (Some r)) \<and>
   (k \<noteq> StorageKey @ notificationName r \<longrightarrow>
      kept_at k s (snd (addRecordToGlobalStore s r)) \<and>
      kept_at k s (snd (addRecordToWorkplaceStore s r))) \<and>
   (k \<noteq> StorageKey @ n \<longrightarrow>
      kept_at k s (snd (setMuteStatusInGlobalStore s n b)) \<and>
      kept_at k s (snd (setMuteStatusInWorkplaceStore s n b)) \<and>
      kept_at k s (snd (addNewViewToNotificationInGlobalStore s t n)) \<and>
      kept_at k s (snd (addNewViewToNotificationInWorkplaceStore s t n))) \<and>
   kept_at k s (snd (getRecordFromGlobalStore s n)) \<and>
   kept_at k s (snd (getRecordFromWorkplaceStore s n)) \<and>
   (agree_at (StorageKey @ notificationName r) s s' \<longrightarrow>
      fst (addRecordToGlobalStore s r) = fst (addRecordToGlobalStore s' r) \<and>
      agree_at (StorageKey @ notificationName r)
        (snd (addRecordToGlobalStore s r)) (snd (addRecordToGlobalStore s' r)) \<and>
      fst (addRecordToWorkplaceStore s r) = fst (addRecordToWorkplaceStore s' r) \<and>
      agree_at (StorageKey @ notificationName r)
        (snd (addRecordToWorkplaceStore s r)) (snd (addRecordToWorkplaceStore s' r))) \<and>
   (agree_at (StorageKey @ n) s s' \<longrightarrow>
      fst (getRecordFromGlobalStore s n) = fst (getRecordFromGlobalStore s' n) \<and>
      agree_at (StorageKey @ n)
        (snd (getRecordFromGlobalStore s n)) (snd (getRecordFromGlobalStore s' n)) \<and>
      fst (getRecordFromWorkplaceStore s n) = fst (getRecordFromWorkplaceStore s' n) \<and>
      agree_at (StorageKey @ n)
        (snd (getRecordFromWorkplaceStore s n)) (snd (getRecordFromWorkplaceStore s' n)) \<and>
      fst (setMuteStatusInGlobalStore s n b) = fst (setMuteStatusInGlobalStore s' n b) \<and>
      agree_at (StorageKey @ n)
        (snd (setMuteStatusInGlobalStore s n b)) (snd (setMuteStatusInGlobalStore s' n b)) \<and>
      fst (setMuteStatusInWorkplaceStore s n b) = fst (setMuteStatusInWorkplaceStore s' n b) \<and>
      agree_at (StorageKey @ n)
        (snd (setMuteStatusInWorkplaceStore s n b)) (snd (setMuteStatusInWorkplaceStore s' n b)) \<and>
      fst (addNewViewToNotificationInGlobalStore s t n) = fst (addNewViewToNotificationInGlobalStore s' t n) \<and>
      agree_at (StorageKey @ n)
        (snd (addNewViewToNotificationInGlobalStore s t n)) (snd (addNewViewToNotificationInGlobalStore s' t n)) \<and>
      fst (addNewViewToNotificationInWorkplaceStore s t n) = fst (addNewViewToNotificationInWorkplaceStore s' t n) \<and>
      agree_at (StorageKey @ n)
        (snd (addNewViewToNotificationInWorkplaceStore s t n))
        (snd (addNewViewToNotificationInWorkplaceStore s' t n)))"
proof -
  have rt_g: "responsive (globalStore s) \<longrightarrow>
      fst (addRecordToGlobalStore s r) = Inr () \<and>
      fst (getRecordFromGlobalStore (snd (addRecordToGlobalStore s r)) (notificationName r)) = Inr (Some r)"
    by (simp add: addRecord_g(1) roundtrip_g)
  have rt_w: "responsive (workplaceStore s) \<longrightarrow>
      fst (addRecordToWorkplaceStore s r) = Inr () \<and>
      fst (getRecordFromWorkplaceStore (snd (addRecordToWorkplaceStore s r)) (notificationName r)) = Inr (Some r)"
    by (simp add: addRecord_w(1) roundtrip_w)
  show ?thesis
    using rt_g rt_w
      addRecord_kept [of k r s] setMute_kept [of k n s b] addNewView_kept [of k n s t]
      getRecord_kept [of k s n]
      addRecord_agree [of r s s'] getRecord_agree [of n s s'] setMute_agree [of n s s' b]
      addNewView_agree [of n s s' t]
    by blast
qed

theorem C6_witness:
  "responsive (globalStore (two_key_store [])) \<and>
   responsive (workplaceStore (two_key_store [])) \<and>
   StorageKey @ ''hint'' \<noteq> StorageKey @ notificationName (tip_record True) \<and>
   StorageKey @ ''hint'' \<noteq> StorageKey @ ''tip'' \<and>
   agree_at (StorageKey @ notificationName (tip_record True)) (two_key_store []) (tip_store False []) \<and>
   agree_at (StorageKey @ ''tip'') (two_key_store []) (tip_store False []) \<and>
   fst (getRecordFromGlobalStore (snd (addRecordToGlobalStore (two_key_store []) (tip_record True))) ''tip'')
     = Inr (Some (tip_record True)) \<and>
   fst (getRecordFromWorkplaceStore (snd (addRecordToWorkplaceStore (two_key_store []) (tip_record True))) ''tip'')
     = Inr (Some (tip_record True)) \<and>
   entries (globalStore (snd (addNewViewToNotificationInGlobalStore (two_key_store []) 9 ''tip'')))
     (StorageKey @ ''hint'') = Some hint_record \<and>
   entries (workplaceStore (snd (setMuteStatusInWorkplaceStore (two_key_store []) ''tip'' True)))
     (StorageKey @ ''hint'') = Some hint_record \<and>
   entries (workplaceStore (snd (setMuteStatusInWorkplaceStore (two_key_store []) ''tip'' True)))
     (StorageKey @ ''tip'') =
   entries (workplaceStore (snd (setMuteStatusInWorkplaceStore (tip_store False []) ''tip'' True)))
     (StorageKey @ ''tip'')"
  using C6_records_kept_verbatim_under_prefixed_key
    [of "two_key_store []" "tip_record True" "StorageKey @ ''hint''" "''tip''" True 9 "tip_store False []"]
  by (simp add: eval_defs2)

subsection \<open>One response of a fixed shape\<close>

text \<open>
  Claim C7. Every invocation of \<open>initMessageHandler\<close> that completes posts exactly one
  message to the webview: the messages posted afterwards are those posted before followed
  by one \<open>InitResponseMessage\<close> (a record of exactly the fields \<open>messageType\<close>, \<open>command\<close>,
  \<open>templateFileName\<close>, \<open>templateFilePath\<close>, \<open>isConnectedToCodeWhisperer\<close>), whose
  \<open>messageType\<close> is \<open>RESPONSE\<close> and whose \<open>command\<close> is \<open>INIT\<close>.
\<close>

theorem C7_one_response_of_fixed_shape:
  assumes "initMessageHandler pb chatAuthState context = Inr context'"
  shows "\<exists>response. posted (webview (panel context')) = posted (webview (panel context)) @ [response] \<and>
           messageType response = RESPONSE \<and> command response = INIT"
  using initMessageHandler_Inr [OF assms] by auto

theorem C7_witness:
  "initMessageHandler posix_basename (Inr \<lparr>codewhispererChat = ''disconnected''\<rparr>) composer_context =
     Inr (composer_context_after False) \<and>
   length (posted (webview (panel (composer_context_after False)))) =
     length (posted (webview (panel composer_context))) + 1 \<and>
   messageType (last (posted (webview (panel (composer_context_after False))))) = RESPONSE \<and>
   command (last (posted (webview (panel (composer_context_after False))))) = INIT"
proof -
  have h: "initMessageHandler posix_basename (Inr \<lparr>codewhispererChat = ''disconnected''\<rparr>) composer_context =
     Inr (composer_context_after False)"
    by (simp add: handler_eval)
  from C7_one_response_of_fixed_shape [OF h] obtain response where
    "posted (webview (panel (composer_context_after False))) =
       posted (webview (panel composer_context)) @ [response]"
    "messageType response = RESPONSE" "command response = INIT"
    by blast
  then show ?thesis using h by simp
qed

subsection \<open>Errors of the host storage propagate\<close>

text \<open>
  Claim C8. When the host's \<open>get\<close> or \<open>update\<close> fails with an error, the store operation
  that called it returns that same error and calls the host no further. If the first host
  call fails, the operation returns the error, has consumed that one call and has changed
  nothing else; if a read-modify-write operation's \<open>get\<close> succeeds and its \<open>update\<close>
  fails, it returns the error of the \<open>update\<close> and has consumed exactly those two calls.
\<close>

theorem C8_host_errors_propagate:
  "(pending (globalStore s) = Some e # rest \<longrightarrow>
      addRecordToGlobalStore s r = (Inl e, s\<lparr>globalStore := (globalStore s)\<lparr>pending := rest\<rparr>\<rparr>) \<and>
      getRecordFromGlobalStore s n = (Inl e, s\<lparr>globalStore := (globalStore s)\<lparr>pending := rest\<rparr>\<rparr>) \<and>
      setMuteStatusInGlobalStore s n b = (Inl e, s\<lparr>globalStore := (globalStore s)\<lparr>pending := rest\<rparr>\<rparr>) \<and>
      addNewViewToNotificationInGlobalStore s t n =
        (Inl e, s\<lparr>globalStore := (globalStore s)\<lparr>pending := rest\<rparr>\<rparr>)) \<and>
   (pending (workplaceStore s) = Some e # rest \<longrightarrow>
      addRecordToWorkplaceStore s r = (Inl e, s\<lparr>workplaceStore := (workplaceStore s)\<lparr>pending := rest\<rparr>\<rparr>) \<and>
      getRecordFromWorkplaceStore s n = (Inl e, s\<lparr>workplaceStore := (workplaceStore s)\<lparr>pending := rest\<rparr>\<rparr>) \<and>
      setMuteStatusInWorkplaceStore s n b =
        (Inl e, s\<lparr>workplaceStore := (workplaceStore s)\<lparr>pending := rest\<rparr>\<rparr>) \<and>
      addNewViewToNotificationInWorkplaceStore s t n =
        (Inl e, s\<lparr>workplaceStore := (workplaceStore s)\<lparr>pending := rest\<rparr>\<rparr>)) \<and>
   (pending (globalStore s) = None # Some e # rest \<longrightarrow>
      fst (setMuteStatusInGlobalStore s n b) = Inl e \<and>
      pending (globalStore (snd (setMuteStatusInGlobalStore s n b))) = rest \<and>
      fst (addNewViewToNotificationInGlobalStore s t n) = Inl e \<and>
      pending (globalStore (snd (addNewViewToNotificationInGlobalStore s t n))) = rest) \<and>
   (pending (workplaceStore s) = None # Some e # rest \<longrightarrow>
      fst (setMuteStatusInWorkplaceStore s n b) = Inl e \<and>
      pending (workplaceStore (snd (setMuteStatusInWorkplaceStore s n b))) = rest \<and>
      fst (addNewViewToNotificationInWorkplaceStore s t n) = Inl e \<and>
      pending (workplaceStore (snd (addNewViewToNotificationInWorkplaceStore s t n))) = rest)"
  by (simp add: store_defs memento_get_eq memento_update_eq fst_next_outcome Let_def)

theorem C8_witness:
  "pending (globalStore (tip_store False [Some (Error ''storage unavailable''), None])) =
     Some (Error ''storage unavailable'') # [None] \<and>
   pending (workplaceStore (tip_store False [Some (Error ''storage unavailable''), None])) =
     Some (Error ''storage unavailable'') # [None] \<and>
   pending (globalStore (tip_store False [None, Some (Error ''quota exceeded''), None])) =
     None # Some (Error ''quota exceeded'') # [None] \<and>
   pending (workplaceStore (tip_store False [None, Some (Error ''quota exceeded''), None])) =
     None # Some (Error ''quota exceeded'') # [None] \<and>
   fst (getRecordFromGlobalStore (tip_store False [Some (Error ''storage unavailable''), None]) ''tip'') =
     Inl (Error ''storage unavailable'') \<and>
   fst (addNewViewToNotificationInWorkplaceStore
          (tip_store False [Some (Error ''storage unavailable''), None]) 9 ''tip'') =
     Inl (Error ''storage unavailable'') \<and>
   fst (setMuteStatusInGlobalStore (tip_store False [None, Some (Error ''quota exceeded''), None]) ''tip'' True) =
     Inl (Error ''quota exceeded'') \<and>
   pending (workplaceStore (snd (setMuteStatusInWorkplaceStore
     (tip_store False [None, Some (Error ''quota exceeded''), None]) ''tip'' True))) = [None]"
  using C8_host_errors_propagate
    [of "tip_store False [Some (Error ''storage unavailable''), None]" "Error ''storage unavailable''" "[None]"
        "tip_record True" "''tip''" True 9]
    C8_host_errors_propagate
    [of "tip_store False [None, Some (Error ''quota exceeded''), None]" "Error ''quota exceeded''" "[None]"
        "tip_record True" "''tip''" True 9]
  by (simp add: eval_defs2)

subsection \<open>An expired connection counts as connected\<close>

text \<open>
  Claim C9. For every auth state, the handler posts a response whose field
  \<open>isConnectedToCodeWhisperer\<close> is true if and only if \<open>codewhispererChat\<close> is \<open>connected\<close>
  or \<open>expired\<close>; in particular it is true for \<open>expired\<close>.
\<close>

theorem C9_connected_iff_connected_or_expired:
  assumes "initMessageHandler pb (Inr authState) context = Inr context'"
  shows "\<exists>response.
           posted (webview (panel context')) = posted (webview (panel context)) @ [response] \<and>
           (isConnectedToCodeWhisperer response \<longleftrightarrow>
              codewhispererChat authState = ''connected'' \<or> codewhispererChat authState = ''expired'') \<and>
           (codewhispererChat authState = ''expired'' \<longrightarrow> isConnectedToCodeWhisperer response)"
  using initMessageHandler_Inr [OF assms] by auto

theorem C9_witness:
  "initMessageHandler posix_basename (Inr \<lparr>codewhispererChat = ''expired''\<rparr>) composer_context =
     Inr (composer_context_after True) \<and>
   posted (webview (panel (composer_context_after True))) =
     posted (webview (panel composer_context)) @ [init_response True] \<and>
   codewhispererChat \<lparr>codewhispererChat = ''expired''\<rparr> = ''expired'' \<and>
   isConnectedToCodeWhisperer (init_response True)"
proof -
  have h: "initMessageHandler posix_basename (Inr \<lparr>codewhispererChat = ''expired''\<rparr>) composer_context =
     Inr (composer_context_after True)"
    by (simp add: handler_eval)
  from C9_connected_iff_connected_or_expired [OF h] obtain response where
    p: "posted (webview (panel (composer_context_after True))) =
          posted (webview (panel composer_context)) @ [response]"
    and c: "codewhispererChat \<lparr>codewhispererChat = ''expired''\<rparr> = ''expired'' \<longrightarrow>
              isConnectedToCodeWhisperer response"
    by blast
  from p have "response = init_response True"
    by (simp add: composer_context_def composer_context_after_def)
  with h p c show ?thesis by simp
qed

subsection \<open>Muting a notification that has no record\<close>

text \<open>
  Claim C10. When no record is stored for a name and the host answers,
  \<open>setMuteStatusInWorkplaceStore\<close> (and \<open>setMuteStatusInGlobalStore\<close>) stores the record with
  \<open>notificationName\<close> the given name, \<open>viewsCounter = 0\<close>, \<open>lastSeen = 0\<close> and \<open>muted\<close> the
  given boolean.
\<close>

theorem C10_mute_status_of_absent_record:
  "(responsive (workplaceStore s) \<and> entries (workplaceStore s) (StorageKey @ n) = None \<longrightarrow>
      fst (setMuteStatusInWorkplaceStore s n isMuted) = Inr () \<and>
      entries (workplaceStore (snd (setMuteStatusInWorkplaceStore s n isMuted))) (StorageKey @ n) =
        Some \<lparr>notificationName = n, viewsCounter = 0, lastSeen = 0, muted = isMuted\<rparr>) \<and>
   (responsive (globalStore s) \<and> entries (globalStore s) (StorageKey @ n) = None \<longrightarrow>
      fst (setMuteStatusInGlobalStore s n isMuted) = Inr () \<and>
      entries (globalStore (snd (setMuteStatusInGlobalStore s n isMuted))) (StorageKey @ n) =
        Some \<lparr>notificationName = n, viewsCounter = 0, lastSeen = 0, muted = isMuted\<rparr>)"
  by (simp add: setMute_w(1,2) setMute_g(1,2) getEmptyRecord_def)

theorem C10_witness:
  "responsive (workplaceStore fresh_store) \<and>
   entries (workplaceStore fresh_store) (StorageKey @ ''tip'') = None \<and>
   responsive (globalStore fresh_store) \<and>
   entries (globalStore fresh_store) (StorageKey @ ''tip'') = None \<and>
   entries (workplaceStore (snd (setMuteStatusInWorkplaceStore fresh_store ''tip'' True))) (StorageKey @ ''tip'') =
     Some \<lparr>notificationName = ''tip'', viewsCounter = 0, lastSeen = 0, muted = True\<rparr> \<and>
   entries (globalStore (snd (setMuteStatusInGlobalStore fresh_store ''tip'' True))) (StorageKey @ ''tip'') =
     Some \<lparr>notificationName = ''tip'', viewsCounter = 0, lastSeen = 0, muted = True\<rparr>"
  using C10_mute_status_of_absent_record [of fresh_store "''tip''" True]
  by (simp add: eval_defs)

end
